theory Spec2Isabelle
  imports Complex_Main "HOL-Library.Multiset"
begin

section \<open>Data model (main.go, lines 22-71)\<close>

text \<open>
  Go's \<open>interface{}\<close> values that travel through the engine, which are those that
  the JSON decoder puts into \<open>Properties\<close> and those that the executors build: the
  \<open>nil\<close> interface, strings, booleans, \<open>float64\<close> numbers, slices and
  \<open>map[string]interface{}\<close> maps. A \<open>float64\<close> is carried around but never
  computed with, so it is kept as a \<open>real\<close>. A map is kept as the list of its
  key/value pairs, for a literal in the order of the source text.
\<close>

datatype val =
    VNil
  | VString string
  | VBool bool
  | VFloat real
  | VList "val list"
  | VMap "(string \<times> val) list"

type_synonym NodeType = string

definition NodeWebhook :: NodeType where "NodeWebhook = ''webhook''"
definition NodeTimer :: NodeType where "NodeTimer = ''timer''"
definition NodeHTTP :: NodeType where "NodeHTTP = ''http''"
definition NodeEmail :: NodeType where "NodeEmail = ''email''"
definition NodeDatabase :: NodeType where "NodeDatabase = ''database''"
definition NodeCondition :: NodeType where "NodeCondition = ''condition''"
definition NodeLoop :: NodeType where "NodeLoop = ''loop''"
definition NodeTransform :: NodeType where "NodeTransform = ''transform''"
definition NodeSlack :: NodeType where "NodeSlack = ''slack''"
definition NodeSheets :: NodeType where "NodeSheets = ''sheets''"
definition NodeOpenAI :: NodeType where "NodeOpenAI = ''openai''"

lemmas NodeType_defs =
  NodeWebhook_def NodeTimer_def NodeHTTP_def NodeEmail_def NodeDatabase_def
  NodeCondition_def NodeLoop_def NodeTransform_def NodeSlack_def NodeSheets_def
  NodeOpenAI_def

text \<open>
  The structs. Field names are global in a theory, so the fields \<open>ID\<close>, \<open>Name\<close> and
  \<open>Status\<close> that several structs share carry the struct as a prefix outside
  \<open>Node\<close> and \<open>ExecutionResult\<close>. A \<open>time.Time\<close> is a number of clock ticks,
  \<open>0\<close> being Go's zero time.
\<close>

type_synonym Time = nat

record Node =
  ID :: string
  Type :: NodeType
  Name :: string
  X :: real
  Y :: real
  Properties :: "string \<rightharpoonup> val"

record Connection =
  ConnID :: string
  FromID :: string
  ToID :: string

record Workflow =
  WfID :: string
  WfName :: string
  Description :: string
  Nodes :: "Node list"
  Connections :: "Connection list"
  CreatedAt :: Time
  UpdatedAt :: Time
  WfStatus :: string

record ExecutionResult =
  WorkflowID :: string
  Status :: string
  StartTime :: Time
  EndTime :: Time
  Results :: "string \<rightharpoonup> val"
  Errors :: "string list"

section \<open>Node executors (lines 169-171 and 238-314)\<close>

text \<open>
  The interface \<open>NodeExecutor\<close>: \<open>Execute(node, input)\<close> returns the pair
  \<open>(interface{}, error)\<close>. An \<open>error\<close> is \<open>None\<close> for \<open>nil\<close> and otherwise the
  text that \<open>%v\<close> prints for it.
\<close>

type_synonym NodeExecutor = "Node \<Rightarrow> val \<Rightarrow> val \<times> string option"

text \<open>
  \<open>s, _ := m[k].(string)\<close>: the string stored under the key, and the empty string when
  the key is missing or holds a value of another type. The same for \<open>float64\<close>.
\<close>

definition asString :: "val option \<Rightarrow> string" where
  "asString v = (case v of Some (VString s) \<Rightarrow> s | _ \<Rightarrow> '''')"

definition asFloat64 :: "val option \<Rightarrow> real" where
  "asFloat64 v = (case v of Some (VFloat f) \<Rightarrow> f | _ \<Rightarrow> 0)"

definition WebhookExecutor :: NodeExecutor where
  "WebhookExecutor node input =
     (let url = asString (Properties node ''url'');
          method = asString (Properties node ''method'')
      in (VMap [(''status'', VString ''webhook_executed''),
                (''url'', VString url),
                (''method'', VString method)], None))"

text \<open>The timer sleeps for the interval before it returns; the wait is not part of the value.\<close>

definition TimerExecutor :: NodeExecutor where
  "TimerExecutor node input =
     (let interval = asFloat64 (Properties node ''interval'')
      in (VMap [(''status'', VString ''timer_completed''),
                (''waited'', VFloat interval)], None))"

definition HTTPExecutor :: NodeExecutor where
  "HTTPExecutor node input =
     (let url = asString (Properties node ''url'');
          method = asString (Properties node ''method'')
      in (VMap [(''status'', VString ''http_request_sent''),
                (''url'', VString url),
                (''method'', VString method)], None))"

definition EmailExecutor :: NodeExecutor where
  "EmailExecutor node input =
     (let to = asString (Properties node ''to'');
          subject = asString (Properties node ''subject'')
      in (VMap [(''status'', VString ''email_sent''),
                (''to'', VString to),
                (''subject'', VString subject)], None))"

definition ConditionExecutor :: NodeExecutor where
  "ConditionExecutor node input =
     (let condition = asString (Properties node ''condition'');
          result = True
      in (VMap [(''status'', VString ''condition_evaluated''),
                (''condition'', VString condition),
                (''result'', VBool result)], None))"

definition TransformExecutor :: NodeExecutor where
  "TransformExecutor node input =
     (let script = asString (Properties node ''script'')
      in (VMap [(''status'', VString ''data_transformed''),
                (''script'', VString script)], None))"

lemmas Executor_defs =
  WebhookExecutor_def TimerExecutor_def HTTPExecutor_def EmailExecutor_def
  ConditionExecutor_def TransformExecutor_def

section \<open>Workflow executor (lines 165-232)\<close>

record WorkflowExecutor =
  nodeExecutors :: "NodeType \<rightharpoonup> NodeExecutor"

definition NewWorkflowExecutor :: WorkflowExecutor where
  "NewWorkflowExecutor =
     \<lparr>nodeExecutors = Map.empty
        (NodeWebhook \<mapsto> WebhookExecutor,
         NodeTimer \<mapsto> TimerExecutor,
         NodeHTTP \<mapsto> HTTPExecutor,
         NodeEmail \<mapsto> EmailExecutor,
         NodeCondition \<mapsto> ConditionExecutor,
         NodeTransform \<mapsto> TransformExecutor)\<rparr>"

text \<open>\<open>buildExecutionGraph\<close> (lines 228-232) returns the workflow's node slice as it is.\<close>

definition buildExecutionGraph :: "WorkflowExecutor \<Rightarrow> Workflow \<Rightarrow> Node list" where
  "buildExecutionGraph we workflow = Nodes workflow"

text \<open>The result record that \<open>Execute\<close> allocates first (lines 190-196).\<close>

definition init_result :: "Workflow \<Rightarrow> Time \<Rightarrow> ExecutionResult" where
  "init_result workflow t0 =
     \<lparr>WorkflowID = WfID workflow, Status = ''running'', StartTime = t0, EndTime = 0,
      Results = Map.empty, Errors = []\<rparr>"

text \<open>
  One round of the loop of lines 202-216. The executor is called with the node and
  the input \<open>nil\<close> (line 209).
\<close>

definition exec_node :: "WorkflowExecutor \<Rightarrow> ExecutionResult \<Rightarrow> Node \<Rightarrow> ExecutionResult" where
  "exec_node we result node =
     (case nodeExecutors we (Type node) of
        None \<Rightarrow>
          result\<lparr>Errors := Errors result @ [''no executor for node type: '' @ Type node]\<rparr>
      | Some executor \<Rightarrow>
          (case executor node VNil of
             (output, Some err) \<Rightarrow>
               result\<lparr>Errors := Errors result @ [''node '' @ ID node @ '' error: '' @ err]\<rparr>
           | (output, None) \<Rightarrow>
               result\<lparr>Results := (Results result)(ID node \<mapsto> output)\<rparr>))"

fun exec_nodes :: "WorkflowExecutor \<Rightarrow> Node list \<Rightarrow> ExecutionResult \<Rightarrow> ExecutionResult" where
  "exec_nodes we [] result = result"
| "exec_nodes we (node # graph) result = exec_nodes we graph (exec_node we result node)"

text \<open>Lines 218-223: the end time and the terminal status.\<close>

definition finish :: "Time \<Rightarrow> ExecutionResult \<Rightarrow> ExecutionResult" where
  "finish t1 result =
     (let result = result\<lparr>EndTime := t1\<rparr>
      in if length (Errors result) > 0 then result\<lparr>Status := ''failed''\<rparr>
         else result\<lparr>Status := ''completed''\<rparr>)"

text \<open>
  \<open>Execute\<close> (lines 189-226). The two readings of the clock, \<open>t0\<close> at line 193 and
  \<open>t1\<close> at line 218, are parameters. The value is Go's pair of the result pointer
  (\<open>None\<close> for \<open>nil\<close>) and the error.
\<close>

definition Execute ::
  "WorkflowExecutor \<Rightarrow> Time \<Rightarrow> Time \<Rightarrow> Workflow \<Rightarrow> ExecutionResult option \<times> string option" where
  "Execute we t0 t1 workflow =
     (let result = init_result workflow t0;
          graph = buildExecutionGraph we workflow;
          result = exec_nodes we graph result;
          result = finish t1 result
      in (Some result, None))"

section \<open>Workflow engine (lines 77-159)\<close>

text \<open>The store maps an identifier to its workflow; the lock is left out.\<close>

record WorkflowEngine =
  workflows :: "string \<rightharpoonup> Workflow"
  executor :: WorkflowExecutor

definition GetWorkflow :: "WorkflowEngine \<Rightarrow> string \<Rightarrow> Workflow option \<times> string option" where
  "GetWorkflow we wid =
     (case workflows we wid of
        None \<Rightarrow> (None, Some ''workflow not found'')
      | Some w \<Rightarrow> (Some w, None))"

text \<open>
  \<open>ExecuteWorkflow\<close> (lines 152-159), with the engine after the call next to the
  value returned.
\<close>

definition ExecuteWorkflow ::
  "WorkflowEngine \<Rightarrow> string \<Rightarrow> Time \<Rightarrow> Time
     \<Rightarrow> (ExecutionResult option \<times> string option) \<times> WorkflowEngine" where
  "ExecuteWorkflow we wid t0 t1 =
     (case GetWorkflow we wid of
        (_, Some err) \<Rightarrow> ((None, Some err), we)
      | (Some workflow, None) \<Rightarrow> (Execute (executor we) t0 t1 workflow, we))"

section \<open>Graph vocabulary of the specification\<close>

text \<open>
  The notions the specification uses to speak about a workflow's graph. They are not
  computed anywhere in main.go; they are here to state the properties below.
  \<open>edges\<close> is the set of (from, to) pairs of the connections, a graph has a cycle when
  that relation is not acyclic, a connection dangles when one of its endpoints is not the
  identifier of a node, and \<open>precedes a b plan\<close> says that \<open>a\<close> occurs in the list of
  identifiers with \<open>b\<close> somewhere behind its first occurrence.
\<close>

definition edges :: "Workflow \<Rightarrow> (string \<times> string) set" where
  "edges workflow = set (map (\<lambda>c. (FromID c, ToID c)) (Connections workflow))"

definition has_cycle :: "Workflow \<Rightarrow> bool" where
  "has_cycle workflow = (\<not> acyclic (edges workflow))"

definition dangling :: "Workflow \<Rightarrow> bool" where
  "dangling workflow =
     (\<exists>c \<in> set (Connections workflow).
        FromID c \<notin> ID ` set (Nodes workflow) \<or> ToID c \<notin> ID ` set (Nodes workflow))"

definition structurally_invalid :: "Workflow \<Rightarrow> bool" where
  "structurally_invalid workflow = (has_cycle workflow \<or> dangling workflow)"

fun precedes :: "string \<Rightarrow> string \<Rightarrow> string list \<Rightarrow> bool" where
  "precedes a b [] = False"
| "precedes a b (x # xs) = (if x = a then b \<in> set xs else precedes a b xs)"

text \<open>
  The error entry, if any, that one round of the loop of \<open>Execute\<close> adds for a node:
  the message for a missing executor, the message for an executor that returned an
  error, and nothing for a node whose executor returned \<open>nil\<close> as its error.
\<close>

definition node_error :: "WorkflowExecutor \<Rightarrow> Node \<Rightarrow> string option" where
  "node_error we node =
     (case nodeExecutors we (Type node) of
        None \<Rightarrow> Some (''no executor for node type: '' @ Type node)
      | Some ex \<Rightarrow>
          (case snd (ex node VNil) of
             Some err \<Rightarrow> Some (''node '' @ ID node @ '' error: '' @ err)
           | None \<Rightarrow> None))"

text \<open>
  The output, if any, that one round of the loop of \<open>Execute\<close> records for a
  node: the first component of what its executor returns for the input \<open>nil\<close>, when
  there is an executor and the error it returns is \<open>nil\<close>.
\<close>

definition run_executor :: "WorkflowExecutor \<Rightarrow> Node \<Rightarrow> val option" where
  "run_executor we node =
     (case nodeExecutors we (Type node) of
        None \<Rightarrow> None
      | Some ex \<Rightarrow>
          (case ex node VNil of
             (out, Some err) \<Rightarrow> None
           | (out, None) \<Rightarrow> Some out))"

text \<open>An executor that is only ever asked about the input \<open>nil\<close>.\<close>

definition with_nil_input :: "NodeExecutor \<Rightarrow> NodeExecutor" where
  "with_nil_input ex = (\<lambda>node input. ex node VNil)"

text \<open>
  The input that the specification resolves for a node: the outputs recorded so far for
  its direct predecessors, as a mapping keyed by the predecessor's identifier. This
  definition follows the words of the specification, not main.go, and is here to be
  compared with what \<open>exec_node\<close> passes.
\<close>

definition spec_resolved_input :: "Connection list \<Rightarrow> (string \<rightharpoonup> val) \<Rightarrow> string \<Rightarrow> val" where
  "spec_resolved_input cs results nid =
     VMap (List.map_filter
             (\<lambda>c. if ToID c = nid then map_option (Pair (FromID c)) (results (FromID c))
                  else None) cs)"

section \<open>Example workflows\<close>

definition mk_node :: "string \<Rightarrow> NodeType \<Rightarrow> Node" where
  "mk_node i t = \<lparr>ID = i, Type = t, Name = i, X = 0, Y = 0, Properties = Map.empty\<rparr>"

definition mk_conn :: "string \<Rightarrow> string \<Rightarrow> Connection" where
  "mk_conn a b = \<lparr>ConnID = a @ ''-'' @ b, FromID = a, ToID = b\<rparr>"

definition mk_workflow :: "Node list \<Rightarrow> Connection list \<Rightarrow> Workflow" where
  "mk_workflow ns cs =
     \<lparr>WfID = ''wf'', WfName = ''example'', Description = [], Nodes = ns, Connections = cs,
      CreatedAt = 1, UpdatedAt = 1, WfStatus = ''inactive''\<rparr>"

text \<open>A webhook node with the properties of the specification's example, and an HTTP node.\<close>

definition node_a :: Node where
  "node_a = \<lparr>ID = ''a'', Type = NodeWebhook, Name = ''hook'', X = 0, Y = 0,
     Properties = [''url'' \<mapsto> VString ''/hook'', ''method'' \<mapsto> VString ''POST'']\<rparr>"

definition node_b :: Node where
  "node_b = mk_node ''b'' NodeHTTP"

definition out_a :: val where
  "out_a = VMap [(''status'', VString ''webhook_executed''), (''url'', VString ''/hook''),
                 (''method'', VString ''POST'')]"

definition out_b :: val where
  "out_b = VMap [(''status'', VString ''http_request_sent''), (''url'', VString []),
                 (''method'', VString [])]"

text \<open>Stored as b, a with the connection a to b; a and b without connections in both orders.\<close>

definition wf_ba :: Workflow where
  "wf_ba = mk_workflow [node_b, node_a] [mk_conn ''a'' ''b'']"

definition wf_ab_free :: Workflow where
  "wf_ab_free = mk_workflow [node_a, node_b] []"

definition wf_ba_free :: Workflow where
  "wf_ba_free = mk_workflow [node_b, node_a] []"

text \<open>A cycle a to b to a, and a connection from a to a node that does not exist.\<close>

definition wf_cycle :: Workflow where
  "wf_cycle = mk_workflow [node_a, node_b] [mk_conn ''a'' ''b'', mk_conn ''b'' ''a'']"

definition wf_dangling :: Workflow where
  "wf_dangling = mk_workflow [node_a] [mk_conn ''a'' ''ghost'']"

text \<open>Two nodes of different types under the one identifier a.\<close>

definition node_a2 :: Node where
  "node_a2 = mk_node ''a'' NodeHTTP"

definition wf_dup :: Workflow where
  "wf_dup = mk_workflow [node_a, node_a2] []"

text \<open>
  A registry with two more executors than the six of \<open>NewWorkflowExecutor\<close>: one that
  always returns an error and one that returns its input as its output.
\<close>

definition FailingExecutor :: NodeExecutor where
  "FailingExecutor node input = (VNil, Some ''boom'')"

definition EchoExecutor :: NodeExecutor where
  "EchoExecutor node input = (input, None)"

definition we_test :: WorkflowExecutor where
  "we_test = \<lparr>nodeExecutors = (nodeExecutors NewWorkflowExecutor)
                 (''flaky'' \<mapsto> FailingExecutor, ''echo'' \<mapsto> EchoExecutor)\<rparr>"

definition node_s :: Node where
  "node_s = mk_node ''s'' NodeSlack"

definition node_f :: Node where
  "node_f = mk_node ''f'' ''flaky''"

definition node_e :: Node where
  "node_e = mk_node ''e'' ''echo''"

definition wf_mixed :: Workflow where
  "wf_mixed = mk_workflow [node_a, node_s, node_f, node_b]
                [mk_conn ''a'' ''s'', mk_conn ''s'' ''f'', mk_conn ''f'' ''b'']"

definition wf_echo :: Workflow where
  "wf_echo = mk_workflow [node_a, node_e] [mk_conn ''a'' ''e'']"

text \<open>\<open>NewWorkflowEngine\<close> (lines 83-88), and an engine that stores one workflow.\<close>

definition NewWorkflowEngine :: WorkflowEngine where
  "NewWorkflowEngine = \<lparr>workflows = Map.empty, executor = NewWorkflowExecutor\<rparr>"

definition engine_one :: WorkflowEngine where
  "engine_one = NewWorkflowEngine\<lparr>workflows := [''wf'' \<mapsto> wf_ab_free]\<rparr>"

lemmas example_defs =
  mk_node_def mk_conn_def mk_workflow_def node_a_def node_b_def node_s_def node_f_def
  node_e_def wf_ba_def wf_ab_free_def wf_ba_free_def wf_cycle_def wf_dangling_def
  wf_mixed_def wf_echo_def we_test_def FailingExecutor_def EchoExecutor_def
  NewWorkflowEngine_def engine_one_def out_a_def out_b_def

section \<open>The loop of Execute\<close>

lemma exec_nodes_append:
  "exec_nodes we (xs @ ys) r = exec_nodes we ys (exec_nodes we xs r)"
  by (induction xs arbitrary: r) simp_all

lemma exec_node_frame:
  "Status (exec_node we r n) = Status r"
  "WorkflowID (exec_node we r n) = WorkflowID r"
  "StartTime (exec_node we r n) = StartTime r"
  "EndTime (exec_node we r n) = EndTime r"
  by (simp_all add: exec_node_def split: option.splits prod.splits)

lemma exec_nodes_frame:
  "Status (exec_nodes we ns r) = Status r"
  "WorkflowID (exec_nodes we ns r) = WorkflowID r"
  "StartTime (exec_nodes we ns r) = StartTime r"
  "EndTime (exec_nodes we ns r) = EndTime r"
  by (induction ns arbitrary: r) (simp_all add: exec_node_frame)

lemma Errors_exec_node:
  "Errors (exec_node we r n) =
     Errors r @ (case node_error we n of None \<Rightarrow> [] | Some e \<Rightarrow> [e])"
  by (simp add: exec_node_def node_error_def split: option.splits prod.splits)

lemma Results_exec_node:
  "Results (exec_node we r n) =
     (case node_error we n of
        None \<Rightarrow> (Results r)(ID n \<mapsto> fst (the (nodeExecutors we (Type n)) n VNil))
      | Some e \<Rightarrow> Results r)"
  by (auto simp add: exec_node_def node_error_def split: option.splits prod.splits)

lemma Errors_exec_nodes:
  "Errors (exec_nodes we ns r) = Errors r @ List.map_filter (node_error we) ns"
  by (induction ns arbitrary: r)
     (simp_all add: Errors_exec_node List.map_filter_simps split: option.splits)

lemma dom_Results_exec_nodes:
  "dom (Results (exec_nodes we ns r)) =
     dom (Results r) \<union> ID ` {n \<in> set ns. node_error we n = None}"
  by (induction ns arbitrary: r)
     (auto simp add: Results_exec_node split: option.splits)

lemma Execute_eq:
  "Execute we t0 t1 w =
     (Some (finish t1 (exec_nodes we (Nodes w) (init_result w t0))), None)"
  by (simp add: Execute_def buildExecutionGraph_def Let_def)

lemma finish_fields:
  "EndTime (finish t1 r) = t1"
  "Errors (finish t1 r) = Errors r"
  "Results (finish t1 r) = Results r"
  "WorkflowID (finish t1 r) = WorkflowID r"
  "StartTime (finish t1 r) = StartTime r"
  "Status (finish t1 r) = (if Errors r = [] then ''completed'' else ''failed'')"
  by (simp_all add: finish_def Let_def)

section \<open>Terminal status\<close>

text \<open>
  C5. After the plan is exhausted \<open>Execute\<close> sets the end timestamp to the second
  reading of the clock, and the status of the result it returns is \<open>completed\<close>
  exactly when the accumulated error list is empty and \<open>failed\<close> exactly when it is
  not. The result starts as \<open>running\<close>, and it is still \<open>running\<close> after
  every prefix of the plan: the only change of status is the final one.
\<close>

theorem Execute_terminal_status:
  "\<exists>r. Execute we t0 t1 w = (Some r, None) \<and>
       EndTime r = t1 \<and>
       Errors r = Errors (exec_nodes we (buildExecutionGraph we w) (init_result w t0)) \<and>
       (Status r = ''completed'') = (Errors r = []) \<and>
       (Status r = ''failed'') = (Errors r \<noteq> []) \<and>
       Status (init_result w t0) = ''running'' \<and>
       (\<forall>k. Status (exec_nodes we (take k (buildExecutionGraph we w)) (init_result w t0))
              = ''running'')"
  by (simp add: Execute_eq finish_fields exec_nodes_frame buildExecutionGraph_def)
     (simp add: init_result_def)

section \<open>What Execute and ExecuteWorkflow return\<close>

text \<open>
  C10. \<open>Execute\<close> returns a result and the error \<open>nil\<close> for every executor registry,
  clock and workflow. \<open>ExecuteWorkflow\<close> returns an error exactly when the store has
  no workflow under the identifier; then it returns no result, whatever the engine's
  executors are, and otherwise it returns what \<open>Execute\<close> returns for the stored
  workflow.
\<close>

theorem ExecuteWorkflow_error_iff_missing:
  "(\<exists>r. Execute we t0 t1 w = (Some r, None)) \<and>
   (snd (fst (ExecuteWorkflow eng wid t0 t1)) \<noteq> None) = (workflows eng wid = None) \<and>
   (workflows eng wid = None \<longrightarrow>
      fst (ExecuteWorkflow eng wid t0 t1) = (None, Some ''workflow not found'')) \<and>
   (\<forall>stored. workflows eng wid = Some stored \<longrightarrow>
      fst (ExecuteWorkflow eng wid t0 t1) = Execute (executor eng) t0 t1 stored)"
  by (auto simp add: Execute_eq ExecuteWorkflow_def GetWorkflow_def split: option.splits)

theorem ExecuteWorkflow_error_iff_missing_witness:
  "workflows engine_one ''nope'' = None \<and>
   fst (ExecuteWorkflow engine_one ''nope'' 5 6) = (None, Some ''workflow not found'') \<and>
   workflows engine_one ''wf'' = Some wf_ab_free \<and>
   snd (fst (ExecuteWorkflow engine_one ''wf'' 5 6)) = None \<and>
   fst (ExecuteWorkflow engine_one ''wf'' 5 6) = Execute NewWorkflowExecutor 5 6 wf_ab_free"
  using ExecuteWorkflow_error_iff_missing [of NewWorkflowExecutor 5 6 wf_ab_free
          engine_one "''nope''"]
        ExecuteWorkflow_error_iff_missing [of NewWorkflowExecutor 5 6 wf_ab_free
          engine_one "''wf''"]
  by (auto simp add: engine_one_def NewWorkflowEngine_def)

section \<open>The store is not written\<close>

text \<open>
  C8. \<open>ExecuteWorkflow\<close> leaves the engine as it was, so the stored workflow keeps
  every field, whether or not the identifier is known. Executing the same workflow a
  second time starts from a new result: the second result is the first one with the two
  timestamps of the second call, its outputs and errors are not added to those of the
  first, and the engine is again unchanged.
\<close>

theorem ExecuteWorkflow_frame:
  "snd (ExecuteWorkflow eng wid t0 t1) = eng \<and>
   workflows (snd (ExecuteWorkflow eng wid t0 t1)) wid = workflows eng wid \<and>
   snd (ExecuteWorkflow (snd (ExecuteWorkflow eng wid t0 t1)) wid t2 t3) = eng \<and>
   (\<forall>r1. fst (ExecuteWorkflow eng wid t0 t1) = (Some r1, None) \<longrightarrow>
      fst (ExecuteWorkflow (snd (ExecuteWorkflow eng wid t0 t1)) wid t2 t3)
        = (Some (r1\<lparr>StartTime := t2, EndTime := t3\<rparr>), None))"
proof -
  have frame: "snd (ExecuteWorkflow e i a b) = e" for e i a b
    by (simp add: ExecuteWorkflow_def GetWorkflow_def split: option.splits)
  have step: "exec_node we (r\<lparr>StartTime := t\<rparr>) n = (exec_node we r n)\<lparr>StartTime := t\<rparr>"
    for we r t n
    by (simp add: exec_node_def split: option.splits prod.splits)
  have loop: "exec_nodes we ns (r\<lparr>StartTime := t\<rparr>) = (exec_nodes we ns r)\<lparr>StartTime := t\<rparr>"
    for we ns r t
    by (induction ns arbitrary: r) (simp_all add: step)
  have init: "init_result w t2 = (init_result w t0)\<lparr>StartTime := t2\<rparr>" for w
    by (simp add: init_result_def)
  have again: "finish t3 (exec_nodes we ns (init_result w t2))
      = (finish t1 (exec_nodes we ns (init_result w t0)))\<lparr>StartTime := t2, EndTime := t3\<rparr>"
    for we ns w
    unfolding init [of w] loop by (simp add: finish_def Let_def)
  show ?thesis
    by (auto simp add: frame)
       (auto simp add: ExecuteWorkflow_def GetWorkflow_def Execute_eq again
             split: option.splits)
qed

theorem ExecuteWorkflow_frame_witness:
  "fst (ExecuteWorkflow engine_one ''wf'' 5 6)
     = (Some \<lparr>WorkflowID = ''wf'', Status = ''completed'', StartTime = 5, EndTime = 6,
              Results = [''a'' \<mapsto> out_a, ''b'' \<mapsto> out_b], Errors = []\<rparr>, None) \<and>
   fst (ExecuteWorkflow (snd (ExecuteWorkflow engine_one ''wf'' 5 6)) ''wf'' 8 9)
     = (Some \<lparr>WorkflowID = ''wf'', Status = ''completed'', StartTime = 8, EndTime = 9,
              Results = [''a'' \<mapsto> out_a, ''b'' \<mapsto> out_b], Errors = []\<rparr>, None) \<and>
   workflows (snd (ExecuteWorkflow engine_one ''wf'' 5 6)) ''wf'' = Some wf_ab_free"
proof -
  have first: "fst (ExecuteWorkflow engine_one ''wf'' 5 6)
     = (Some \<lparr>WorkflowID = ''wf'', Status = ''completed'', StartTime = 5, EndTime = 6,
              Results = [''a'' \<mapsto> out_a, ''b'' \<mapsto> out_b], Errors = []\<rparr>, None)"
    by (simp add: ExecuteWorkflow_def GetWorkflow_def Execute_eq example_defs exec_node_def
          init_result_def finish_def NewWorkflowExecutor_def NodeType_defs Executor_defs
          asString_def Let_def)
  have store: "workflows engine_one ''wf'' = Some wf_ab_free"
    by (simp add: engine_one_def)
  note frame = ExecuteWorkflow_frame [of engine_one "''wf''" 5 6 8 9]
  from frame have same: "snd (ExecuteWorkflow engine_one ''wf'' 5 6) = engine_one"
    by blast
  from frame
  have imp: "\<forall>r1. fst (ExecuteWorkflow engine_one ''wf'' 5 6) = (Some r1, None) \<longrightarrow>
      fst (ExecuteWorkflow (snd (ExecuteWorkflow engine_one ''wf'' 5 6)) ''wf'' 8 9)
        = (Some (r1\<lparr>StartTime := 8, EndTime := 9\<rparr>), None)"
    by blast
  have second: "fst (ExecuteWorkflow (snd (ExecuteWorkflow engine_one ''wf'' 5 6)) ''wf'' 8 9)
     = (Some \<lparr>WorkflowID = ''wf'', Status = ''completed'', StartTime = 8, EndTime = 9,
              Results = [''a'' \<mapsto> out_a, ''b'' \<mapsto> out_b], Errors = []\<rparr>, None)"
    using imp [rule_format, OF first] by simp
  show ?thesis
    using first second store unfolding same by blast
qed

section \<open>The registered executors\<close>

lemma dom_NewWorkflowExecutor:
  "dom (nodeExecutors NewWorkflowExecutor) =
     {NodeWebhook, NodeTimer, NodeHTTP, NodeEmail, NodeCondition, NodeTransform}"
  by (simp add: NewWorkflowExecutor_def insert_commute)

lemma registered_executor_succeeds:
  "nodeExecutors NewWorkflowExecutor t = Some ex \<Longrightarrow> \<exists>m. ex node input = (VMap m, None)"
  by (auto simp add: NewWorkflowExecutor_def Executor_defs Let_def split: if_splits)

lemma node_error_registered:
  assumes "Type n \<in> dom (nodeExecutors NewWorkflowExecutor)"
  shows "node_error NewWorkflowExecutor n = None"
proof -
  from assms obtain ex where ex: "nodeExecutors NewWorkflowExecutor (Type n) = Some ex"
    by blast
  from registered_executor_succeeds [OF ex, of n VNil] ex show ?thesis
    by (auto simp add: node_error_def)
qed

lemma run_executor_registered:
  assumes "Type n \<in> dom (nodeExecutors NewWorkflowExecutor)"
  shows "\<exists>m. run_executor NewWorkflowExecutor n = Some (VMap m)"
proof -
  from assms obtain ex where ex: "nodeExecutors NewWorkflowExecutor (Type n) = Some ex"
    by blast
  from registered_executor_succeeds [OF ex, of n VNil] ex show ?thesis
    by (auto simp add: run_executor_def)
qed

lemma Results_exec_node_run:
  "Results (exec_node we r n) =
     (case run_executor we n of None \<Rightarrow> Results r | Some out \<Rightarrow> (Results r)(ID n \<mapsto> out))"
  by (simp add: exec_node_def run_executor_def split: option.splits prod.splits)

lemma Results_exec_nodes_find:
  "Results (exec_nodes we ns r) i =
     (case List.find (\<lambda>n. ID n = i \<and> run_executor we n \<noteq> None) (rev ns) of
        None \<Rightarrow> Results r i
      | Some n \<Rightarrow> run_executor we n)"
proof (induction ns rule: rev_induct)
  case Nil
  show ?case by simp
next
  case (snoc x xs)
  show ?case
    by (cases "run_executor we x")
       (simp_all add: exec_nodes_append Results_exec_node_run snoc.IH)
qed

lemma find_distinct_key:
  "distinct (map f xs) \<Longrightarrow> x \<in> set xs \<Longrightarrow> List.find (\<lambda>y. f y = f x) xs = Some x"
  by (induction xs) (auto simp add: rev_image_eqI)

text \<open>
  C9, as the specification has it, fails. The two nodes of \<open>wf_dup\<close> have registered
  types and share the identifier a. \<open>Execute\<close> completes without errors, and the
  outputs have one entry for the two nodes: the output of the second node, which has
  replaced that of the first.
\<close>

theorem duplicate_ids_share_one_entry:
  "set (map Type (Nodes wf_dup)) \<subseteq> dom (nodeExecutors NewWorkflowExecutor) \<and>
   length (Nodes wf_dup) = 2 \<and>
   Execute NewWorkflowExecutor 5 6 wf_dup
     = (Some \<lparr>WorkflowID = ''wf'', Status = ''completed'', StartTime = 5, EndTime = 6,
              Results = [''a'' \<mapsto> out_b], Errors = []\<rparr>, None) \<and>
   card (dom ([''a'' \<mapsto> out_b] :: string \<rightharpoonup> val)) = 1"
proof -
  have names: "ID node_a = ''a''" "ID node_a2 = ''a''" "Type node_a = ''webhook''"
      "Type node_a2 = ''http''"
    by (simp_all add: node_a_def node_a2_def mk_node_def NodeType_defs)
  have lookups: "nodeExecutors NewWorkflowExecutor ''webhook'' = Some WebhookExecutor"
      "nodeExecutors NewWorkflowExecutor ''http'' = Some HTTPExecutor"
    by (simp_all add: NewWorkflowExecutor_def NodeType_defs)
  have out: "WebhookExecutor node_a VNil = (out_a, None)" "HTTPExecutor node_a2 VNil = (out_b, None)"
    by (simp_all add: Executor_defs Let_def asString_def node_a_def node_a2_def mk_node_def
          out_a_def out_b_def)
  have types: "set (map Type (Nodes wf_dup)) \<subseteq> dom (nodeExecutors NewWorkflowExecutor)"
    by (simp add: wf_dup_def mk_workflow_def names dom_NewWorkflowExecutor NodeType_defs)
  have run: "Execute NewWorkflowExecutor 5 6 wf_dup
     = (Some \<lparr>WorkflowID = ''wf'', Status = ''completed'', StartTime = 5, EndTime = 6,
              Results = [''a'' \<mapsto> out_b], Errors = []\<rparr>, None)"
    by (simp add: Execute_eq wf_dup_def mk_workflow_def exec_node_def names lookups out
          init_result_def finish_def)
  show ?thesis
    using types run by (simp add: wf_dup_def mk_workflow_def)
qed

text \<open>
  C9, amended. The registry of \<open>NewWorkflowExecutor\<close> holds exactly the six types
  webhook, timer, http, email, condition and transform, and each of its executors
  returns a map and the error \<open>nil\<close> for every node and every input. So for a workflow
  whose node types are all registered, \<open>Execute\<close> returns a \<open>completed\<close> result
  without errors; its outputs have an entry under the identifier of every node and under
  nothing else, and the entry under an identifier is the output that the executor of
  the last node of the plan with that identifier returned for the input \<open>nil\<close>. When
  the identifiers of the nodes are distinct, these are as many entries as nodes, and
  the entry under a node's identifier is the map that this node's executor returned.
\<close>

theorem registered_workflow_completes:
  assumes "set (map Type (Nodes w)) \<subseteq> dom (nodeExecutors NewWorkflowExecutor)"
  shows "dom (nodeExecutors NewWorkflowExecutor) =
           {NodeWebhook, NodeTimer, NodeHTTP, NodeEmail, NodeCondition, NodeTransform} \<and>
         (\<forall>t ex node input. nodeExecutors NewWorkflowExecutor t = Some ex \<longrightarrow>
            (\<exists>m. ex node input = (VMap m, None))) \<and>
         (\<exists>r. Execute NewWorkflowExecutor t0 t1 w = (Some r, None) \<and>
              Status r = ''completed'' \<and> Errors r = [] \<and>
              dom (Results r) = set (map ID (Nodes w)) \<and>
              (\<forall>i. Results r i =
                    Option.bind (List.find (\<lambda>n. ID n = i) (rev (Nodes w)))
                      (run_executor NewWorkflowExecutor)) \<and>
              (distinct (map ID (Nodes w)) \<longrightarrow>
                 card (dom (Results r)) = length (Nodes w) \<and>
                 (\<forall>n \<in> set (Nodes w).
                    Results r (ID n) = run_executor NewWorkflowExecutor n \<and>
                    (\<exists>m. Results r (ID n) = Some (VMap m)))))"
proof -
  define r where "r = finish t1 (exec_nodes NewWorkflowExecutor (Nodes w) (init_result w t0))"
  have reg: "Type n \<in> dom (nodeExecutors NewWorkflowExecutor)" if "n \<in> set (Nodes w)" for n
    using assms that by auto
  have ok: "node_error NewWorkflowExecutor n = None" if "n \<in> set (Nodes w)" for n
    using reg [OF that] by (rule node_error_registered)
  have ran: "\<exists>m. run_executor NewWorkflowExecutor n = Some (VMap m)" if "n \<in> set (Nodes w)" for n
    using reg [OF that] by (rule run_executor_registered)
  have no_errs: "List.map_filter (node_error NewWorkflowExecutor) (Nodes w) = []"
    using ok by (simp add: List.map_filter_def)
  have all_ok: "{n \<in> set (Nodes w). node_error NewWorkflowExecutor n = None} = set (Nodes w)"
    using ok by blast
  have run: "Execute NewWorkflowExecutor t0 t1 w = (Some r, None)"
    by (simp add: Execute_eq r_def)
  have status: "Status r = ''completed''" and errs: "Errors r = []"
    by (simp_all add: r_def finish_fields Errors_exec_nodes no_errs init_result_def)
  have keys: "dom (Results r) = set (map ID (Nodes w))"
    by (simp add: r_def finish_fields dom_Results_exec_nodes all_ok init_result_def)
  have "List.find (\<lambda>n. ID n = i \<and> run_executor NewWorkflowExecutor n \<noteq> None) (rev (Nodes w))
      = List.find (\<lambda>n. ID n = i) (rev (Nodes w))" for i
    using ran by (intro find_cong) auto
  then have entries: "Results r i =
      Option.bind (List.find (\<lambda>n. ID n = i) (rev (Nodes w))) (run_executor NewWorkflowExecutor)"
    for i
    by (simp add: r_def finish_fields Results_exec_nodes_find init_result_def
          split: option.splits)
  have count: "card (dom (Results r)) = length (Nodes w)" if "distinct (map ID (Nodes w))"
    using distinct_card [OF that] by (simp add: keys)
  have own: "Results r (ID n) = run_executor NewWorkflowExecutor n \<and>
      (\<exists>m. Results r (ID n) = Some (VMap m))"
    if ids: "distinct (map ID (Nodes w))" and n: "n \<in> set (Nodes w)" for n
  proof -
    from ids have "distinct (map ID (rev (Nodes w)))"
      by (simp add: rev_map [symmetric])
    moreover from n have "n \<in> set (rev (Nodes w))"
      by simp
    ultimately have "List.find (\<lambda>m. ID m = ID n) (rev (Nodes w)) = Some n"
      by (rule find_distinct_key)
    then have "Results r (ID n) = run_executor NewWorkflowExecutor n"
      by (simp add: entries)
    with ran [OF n] show ?thesis
      by simp
  qed
  have result: "\<exists>r. Execute NewWorkflowExecutor t0 t1 w = (Some r, None) \<and>
      Status r = ''completed'' \<and> Errors r = [] \<and>
      dom (Results r) = set (map ID (Nodes w)) \<and>
      (\<forall>i. Results r i =
            Option.bind (List.find (\<lambda>n. ID n = i) (rev (Nodes w)))
              (run_executor NewWorkflowExecutor)) \<and>
      (distinct (map ID (Nodes w)) \<longrightarrow>
         card (dom (Results r)) = length (Nodes w) \<and>
         (\<forall>n \<in> set (Nodes w).
            Results r (ID n) = run_executor NewWorkflowExecutor n \<and>
            (\<exists>m. Results r (ID n) = Some (VMap m))))"
  proof (rule exI [of _ r], intro conjI allI impI ballI)
    show "Execute NewWorkflowExecutor t0 t1 w = (Some r, None)" by (fact run)
    show "Status r = ''completed''" by (fact status)
    show "Errors r = []" by (fact errs)
    show "dom (Results r) = set (map ID (Nodes w))" by (fact keys)
    show "Results r i =
        Option.bind (List.find (\<lambda>n. ID n = i) (rev (Nodes w))) (run_executor NewWorkflowExecutor)"
      for i by (fact entries)
    show "card (dom (Results r)) = length (Nodes w)" if "distinct (map ID (Nodes w))"
      using that by (rule count)
    show "Results r (ID n) = run_executor NewWorkflowExecutor n"
      if "distinct (map ID (Nodes w))" "n \<in> set (Nodes w)" for n
      using own [OF that] by (rule conjunct1)
    show "\<exists>m. Results r (ID n) = Some (VMap m)"
      if "distinct (map ID (Nodes w))" "n \<in> set (Nodes w)" for n
      using own [OF that] by (rule conjunct2)
  qed
  have succeed: "\<forall>t ex node input. nodeExecutors NewWorkflowExecutor t = Some ex \<longrightarrow>
      (\<exists>m. ex node input = (VMap m, None))"
    using registered_executor_succeeds by blast
  from dom_NewWorkflowExecutor succeed result show ?thesis
    by (intro conjI)
qed

theorem registered_workflow_completes_witness:
  "set (map Type (Nodes wf_ab_free)) \<subseteq> dom (nodeExecutors NewWorkflowExecutor) \<and>
   distinct (map ID (Nodes wf_ab_free)) \<and>
   node_a \<in> set (Nodes wf_ab_free) \<and>
   nodeExecutors NewWorkflowExecutor ''webhook'' = Some WebhookExecutor \<and>
   (\<exists>m. WebhookExecutor node_a VNil = (VMap m, None)) \<and>
   run_executor NewWorkflowExecutor node_a = Some out_a \<and>
   (\<exists>r. Execute NewWorkflowExecutor 5 6 wf_ab_free = (Some r, None) \<and>
        Status r = ''completed'' \<and> Errors r = [] \<and>
        dom (Results r) = {''a'', ''b''} \<and> card (dom (Results r)) = 2 \<and>
        Results r ''a'' = Some out_a)"
proof -
  have types: "set (map Type (Nodes wf_ab_free)) \<subseteq> dom (nodeExecutors NewWorkflowExecutor)"
    by (simp add: dom_NewWorkflowExecutor example_defs)
  have ids: "distinct (map ID (Nodes wf_ab_free))"
    by (simp add: example_defs)
  have mem: "node_a \<in> set (Nodes wf_ab_free)"
    by (simp add: wf_ab_free_def mk_workflow_def)
  have hook: "nodeExecutors NewWorkflowExecutor ''webhook'' = Some WebhookExecutor"
    by (simp add: NewWorkflowExecutor_def NodeType_defs)
  have ran: "run_executor NewWorkflowExecutor node_a = Some out_a"
    by (simp add: run_executor_def node_a_def NewWorkflowExecutor_def NodeType_defs
          WebhookExecutor_def Let_def asString_def out_a_def)
  have nodes: "set (map ID (Nodes wf_ab_free)) = {''a'', ''b''}" "length (Nodes wf_ab_free) = 2"
      "ID node_a = ''a''"
    by (simp_all add: example_defs)
  note inst = registered_workflow_completes [OF types, of 5 6]
  from inst hook have run: "\<exists>m. WebhookExecutor node_a VNil = (VMap m, None)"
    by blast
  from inst obtain r where r: "Execute NewWorkflowExecutor 5 6 wf_ab_free = (Some r, None)"
      "Status r = ''completed''" "Errors r = []"
      "dom (Results r) = set (map ID (Nodes wf_ab_free))"
      "distinct (map ID (Nodes wf_ab_free)) \<longrightarrow>
         card (dom (Results r)) = length (Nodes wf_ab_free) \<and>
         (\<forall>n \<in> set (Nodes wf_ab_free).
            Results r (ID n) = run_executor NewWorkflowExecutor n \<and>
            (\<exists>m. Results r (ID n) = Some (VMap m)))"
    by blast
  from r(4) nodes(1) have d: "dom (Results r) = {''a'', ''b''}"
    by (rule trans)
  from r(5) ids have both: "card (dom (Results r)) = length (Nodes wf_ab_free)"
      "\<forall>n \<in> set (Nodes wf_ab_free). Results r (ID n) = run_executor NewWorkflowExecutor n \<and>
            (\<exists>m. Results r (ID n) = Some (VMap m))"
    by blast+
  from both(1) nodes(2) have c: "card (dom (Results r)) = 2"
    by (simp only:)
  from both(2) mem have "Results r (ID node_a) = run_executor NewWorkflowExecutor node_a"
    by blast
  with ran nodes(3) have a: "Results r ''a'' = Some out_a"
    by simp
  from r(1-3) d c a
  have "\<exists>r. Execute NewWorkflowExecutor 5 6 wf_ab_free = (Some r, None) \<and>
        Status r = ''completed'' \<and> Errors r = [] \<and>
        dom (Results r) = {''a'', ''b''} \<and> card (dom (Results r)) = 2 \<and>
        Results r ''a'' = Some out_a"
    by blast
  with types ids mem hook run ran show ?thesis
    by blast
qed

section \<open>Failures of single nodes\<close>

text \<open>
  C4. At every position of the plan: a node whose type has no executor leaves the
  outputs as they are and adds the one entry \<open>no executor for node type: <type>\<close>
  to the errors; a node whose executor returns an error leaves the outputs as they are
  and adds the one entry \<open>node <id> error: <error>\<close>; and in both cases the loop
  goes on with the rest of the plan: the result that \<open>Execute\<close> returns is the one
  reached by running every remaining node, its errors are those so far followed by one
  entry for each remaining node that fails, and its outputs gain the identifier of each
  remaining node that succeeds. When the identifiers of the plan are distinct, the
  identifier of a node that failed or was skipped is not among the outputs.
\<close>

theorem node_failure_does_not_stop_the_run:
  assumes "buildExecutionGraph we w = pre @ node # post"
  shows "\<exists>before after r.
      before = exec_nodes we pre (init_result w t0) \<and>
      after = exec_node we before node \<and>
      Execute we t0 t1 w = (Some r, None) \<and>
      r = finish t1 (exec_nodes we post after) \<and>
      (nodeExecutors we (Type node) = None \<longrightarrow>
         Errors after = Errors before @ [''no executor for node type: '' @ Type node] \<and>
         Results after = Results before) \<and>
      (\<forall>ex out err. nodeExecutors we (Type node) = Some ex \<and> ex node VNil = (out, Some err) \<longrightarrow>
         Errors after = Errors before @ [''node '' @ ID node @ '' error: '' @ err] \<and>
         Results after = Results before) \<and>
      Errors r = Errors after @ List.map_filter (node_error we) post \<and>
      dom (Results r) = dom (Results after) \<union> ID ` {m \<in> set post. node_error we m = None} \<and>
      (node_error we node \<noteq> None \<and> distinct (map ID (pre @ node # post)) \<longrightarrow>
         ID node \<notin> dom (Results r))"
proof -
  define before where "before = exec_nodes we pre (init_result w t0)"
  define after where "after = exec_node we before node"
  define r where "r = finish t1 (exec_nodes we post after)"
  from assms have plan: "Nodes w = pre @ node # post"
    by (simp add: buildExecutionGraph_def)
  have run: "Execute we t0 t1 w = (Some r, None)"
    by (simp add: Execute_eq plan exec_nodes_append r_def after_def before_def)
  have skipped: "Errors after = Errors before @ [''no executor for node type: '' @ Type node] \<and>
      Results after = Results before" if "nodeExecutors we (Type node) = None"
    using that by (simp add: after_def exec_node_def)
  have failed: "Errors after = Errors before @ [''node '' @ ID node @ '' error: '' @ err] \<and>
      Results after = Results before"
    if "nodeExecutors we (Type node) = Some ex" "ex node VNil = (out, Some err)" for ex out err
    using that by (simp add: after_def exec_node_def)
  have errs: "Errors r = Errors after @ List.map_filter (node_error we) post"
    by (simp add: r_def finish_fields Errors_exec_nodes)
  have outs: "dom (Results r) = dom (Results after) \<union> ID ` {m \<in> set post. node_error we m = None}"
    by (simp add: r_def finish_fields dom_Results_exec_nodes)
  have absent: "ID node \<notin> dom (Results r)"
    if bad: "node_error we node \<noteq> None" and ids: "distinct (map ID (pre @ node # post))"
  proof -
    from bad have same: "Results after = Results before"
      by (auto simp add: after_def Results_exec_node)
    have "dom (Results before) = ID ` {m \<in> set pre. node_error we m = None}"
      by (simp add: before_def dom_Results_exec_nodes init_result_def)
    then have "dom (Results r) \<subseteq> ID ` set pre \<union> ID ` set post"
      unfolding outs same by blast
    moreover from ids have "ID node \<notin> ID ` set pre \<union> ID ` set post"
      by auto
    ultimately show ?thesis by blast
  qed
  show ?thesis
  proof (rule exI [of _ before], rule exI [of _ "after"], rule exI [of _ r], intro conjI)
    show "before = exec_nodes we pre (init_result w t0)"
      by (fact before_def)
    show "after = exec_node we before node"
      by (fact after_def)
    show "Execute we t0 t1 w = (Some r, None)"
      by (fact run)
    show "r = finish t1 (exec_nodes we post after)"
      by (fact r_def)
    show "nodeExecutors we (Type node) = None \<longrightarrow>
        Errors after = Errors before @ [''no executor for node type: '' @ Type node] \<and>
        Results after = Results before"
      using skipped by blast
    show "\<forall>ex out err. nodeExecutors we (Type node) = Some ex \<and> ex node VNil = (out, Some err) \<longrightarrow>
        Errors after = Errors before @ [''node '' @ ID node @ '' error: '' @ err] \<and>
        Results after = Results before"
      using failed by blast
    show "Errors r = Errors after @ List.map_filter (node_error we) post"
      by (fact errs)
    show "dom (Results r) = dom (Results after) \<union> ID ` {m \<in> set post. node_error we m = None}"
      by (fact outs)
    show "node_error we node \<noteq> None \<and> distinct (map ID (pre @ node # post)) \<longrightarrow>
        ID node \<notin> dom (Results r)"
      using absent by blast
  qed
qed

theorem node_failure_does_not_stop_the_run_witness:
  "buildExecutionGraph we_test wf_mixed = [node_a] @ node_s # [node_f, node_b] \<and>
   nodeExecutors we_test (Type node_s) = None \<and>
   buildExecutionGraph we_test wf_mixed = [node_a, node_s] @ node_f # [node_b] \<and>
   nodeExecutors we_test (Type node_f) = Some FailingExecutor \<and>
   FailingExecutor node_f VNil = (VNil, Some ''boom'') \<and>
   node_error we_test node_s \<noteq> None \<and>
   node_error we_test node_f \<noteq> None \<and>
   distinct (map ID ([node_a, node_s] @ node_f # [node_b])) \<and>
   (\<exists>r. Execute we_test 5 6 wf_mixed = (Some r, None) \<and>
        Status r = ''failed'' \<and>
        Errors r = [''no executor for node type: slack'', ''node f error: boom''] \<and>
        Results r ''a'' = Some out_a \<and> Results r ''b'' = Some out_b \<and>
        ''s'' \<notin> dom (Results r) \<and> ''f'' \<notin> dom (Results r))"
proof -
  have plan1: "buildExecutionGraph we_test wf_mixed = [node_a] @ node_s # [node_f, node_b]"
    and plan2: "buildExecutionGraph we_test wf_mixed = [node_a, node_s] @ node_f # [node_b]"
    by (simp_all add: buildExecutionGraph_def wf_mixed_def mk_workflow_def)
  have none: "nodeExecutors we_test (Type node_s) = None"
    by (simp add: we_test_def node_s_def mk_node_def NewWorkflowExecutor_def NodeType_defs)
  have some: "nodeExecutors we_test (Type node_f) = Some FailingExecutor"
    by (simp add: we_test_def node_f_def mk_node_def)
  have boom: "FailingExecutor node_f VNil = (VNil, Some ''boom'')"
    by (simp add: FailingExecutor_def)
  have bad_s: "node_error we_test node_s \<noteq> None"
    by (simp add: node_error_def none)
  have bad_f: "node_error we_test node_f \<noteq> None"
    by (simp add: node_error_def some boom)
  have ids: "distinct (map ID ([node_a, node_s] @ node_f # [node_b]))"
    by (simp add: node_a_def node_s_def node_f_def node_b_def mk_node_def)
  have ids': "distinct (map ID ([node_a] @ node_s # [node_f, node_b]))"
    using ids by simp
  define r where "r = finish 6 (exec_nodes we_test (Nodes wf_mixed) (init_result wf_mixed 5))"
  have run: "Execute we_test 5 6 wf_mixed = (Some r, None)"
    by (simp add: Execute_eq r_def)
  have names: "ID node_a = ''a''" "ID node_b = ''b''" "ID node_s = ''s''" "ID node_f = ''f''"
      "Type node_a = ''webhook''" "Type node_b = ''http''" "Type node_s = ''slack''"
      "Type node_f = ''flaky''"
    by (simp_all add: node_a_def node_b_def node_s_def node_f_def mk_node_def NodeType_defs)
  have lookups: "nodeExecutors we_test ''webhook'' = Some WebhookExecutor"
      "nodeExecutors we_test ''http'' = Some HTTPExecutor"
      "nodeExecutors we_test ''slack'' = None"
      "nodeExecutors we_test ''flaky'' = Some FailingExecutor"
    by (simp_all add: we_test_def NewWorkflowExecutor_def NodeType_defs)
  have out: "WebhookExecutor node_a VNil = (out_a, None)" "HTTPExecutor node_b VNil = (out_b, None)"
    by (simp_all add: Executor_defs Let_def asString_def node_a_def node_b_def mk_node_def
          out_a_def out_b_def)
  have fields: "Status r = ''failed''"
      "Errors r = [''no executor for node type: slack'', ''node f error: boom'']"
      "Results r ''a'' = Some out_a" "Results r ''b'' = Some out_b"
    by (simp_all add: r_def wf_mixed_def mk_workflow_def finish_fields exec_node_def
          names lookups boom out init_result_def)
  from node_failure_does_not_stop_the_run [OF plan1, of 5 6] run bad_s ids' names(3)
  have s: "''s'' \<notin> dom (Results r)"
    by auto
  from node_failure_does_not_stop_the_run [OF plan2, of 5 6] run bad_f ids names(4)
  have f: "''f'' \<notin> dom (Results r)"
    by auto
  from run fields s f
  have "\<exists>r. Execute we_test 5 6 wf_mixed = (Some r, None) \<and>
        Status r = ''failed'' \<and>
        Errors r = [''no executor for node type: slack'', ''node f error: boom''] \<and>
        Results r ''a'' = Some out_a \<and> Results r ''b'' = Some out_b \<and>
        ''s'' \<notin> dom (Results r) \<and> ''f'' \<notin> dom (Results r)"
    by blast
  with plan1 none plan2 some boom bad_s bad_f ids show ?thesis
    by blast
qed

section \<open>The plan of the Graph Builder\<close>

lemma edges_wf_ba: "edges wf_ba = {(''a'', ''b'')}"
  by (simp add: edges_def wf_ba_def mk_workflow_def mk_conn_def)

lemma edges_wf_cycle: "edges wf_cycle = {(''a'', ''b''), (''b'', ''a'')}"
  by (simp add: edges_def wf_cycle_def mk_workflow_def mk_conn_def)

lemma has_cycle_wf_cycle: "has_cycle wf_cycle"
proof -
  have "(''a'', ''a'') \<in> (edges wf_cycle)\<^sup>+"
    unfolding edges_wf_cycle
    by (rule trancl_into_trancl [of _ "''b''"]) (rule r_into_trancl, simp_all)
  then show ?thesis
    by (auto simp add: has_cycle_def acyclic_def)
qed

lemma example_names:
  "ID node_a = ''a''" "ID node_b = ''b''" "ID node_s = ''s''" "ID node_f = ''f''"
  "ID node_e = ''e''"
  "Type node_a = ''webhook''" "Type node_b = ''http''" "Type node_s = ''slack''"
  "Type node_f = ''flaky''" "Type node_e = ''echo''"
  by (simp_all add: node_a_def node_b_def node_s_def node_f_def node_e_def mk_node_def
        NodeType_defs)

lemma example_lookups:
  "nodeExecutors NewWorkflowExecutor ''webhook'' = Some WebhookExecutor"
  "nodeExecutors NewWorkflowExecutor ''http'' = Some HTTPExecutor"
  "nodeExecutors we_test ''webhook'' = Some WebhookExecutor"
  "nodeExecutors we_test ''echo'' = Some EchoExecutor"
  by (simp_all add: we_test_def NewWorkflowExecutor_def NodeType_defs)

lemma example_outputs:
  "WebhookExecutor node_a VNil = (out_a, None)"
  "HTTPExecutor node_b VNil = (out_b, None)"
  "EchoExecutor node_e input = (input, None)"
  by (simp_all add: Executor_defs EchoExecutor_def Let_def asString_def node_a_def node_b_def
        mk_node_def out_a_def out_b_def)

text \<open>
  C1. The plan is the stored node sequence, whatever the connections are. The workflow
  \<open>wf_ba\<close> stores b before a and has the one connection from a to b: its graph is
  acyclic and its identifiers are distinct, and the plan holds both nodes once, but
  it is b, a, so a does not precede b.
\<close>

theorem plan_ignores_connection:
  "acyclic (edges wf_ba) \<and>
   (''a'', ''b'') \<in> edges wf_ba \<and>
   distinct (map ID (Nodes wf_ba)) \<and>
   map ID (buildExecutionGraph NewWorkflowExecutor wf_ba) = [''b'', ''a''] \<and>
   \<not> precedes ''a'' ''b'' (map ID (buildExecutionGraph NewWorkflowExecutor wf_ba))"
  by (simp add: edges_wf_ba)
     (simp add: acyclic_def buildExecutionGraph_def wf_ba_def mk_workflow_def example_names)

text \<open>
  C2, as the specification has it, fails: the workflow \<open>wf_cycle\<close> has the cycle
  a, b, a, and the Graph Builder returns the plan a, b for it.
\<close>

theorem cyclic_workflow_gets_a_plan:
  "has_cycle wf_cycle \<and>
   buildExecutionGraph NewWorkflowExecutor wf_cycle = [node_a, node_b]"
  by (simp add: has_cycle_wf_cycle)
     (simp add: buildExecutionGraph_def wf_cycle_def mk_workflow_def)

text \<open>
  C2, amended. For a workflow whose graph has a cycle the Graph Builder does not fail,
  its value being a node sequence and never an error: it returns a plan that holds
  every node of the workflow as often as the workflow's node collection does.
\<close>

theorem cyclic_workflow_plan_has_all_nodes:
  assumes "has_cycle w"
  shows "mset (buildExecutionGraph we w) = mset (Nodes w) \<and>
         length (buildExecutionGraph we w) = length (Nodes w)"
  by (simp add: buildExecutionGraph_def)

theorem cyclic_workflow_plan_has_all_nodes_witness:
  "has_cycle wf_cycle \<and>
   mset (buildExecutionGraph NewWorkflowExecutor wf_cycle) = {#node_a, node_b#} \<and>
   length (buildExecutionGraph NewWorkflowExecutor wf_cycle) = 2"
  using cyclic_workflow_plan_has_all_nodes [OF has_cycle_wf_cycle, of NewWorkflowExecutor]
  by (simp add: has_cycle_wf_cycle) (simp add: wf_cycle_def mk_workflow_def)

text \<open>
  C7, as the specification has it, fails: \<open>wf_ab_free\<close> and \<open>wf_ba_free\<close> have the
  same two nodes and the same (empty) connections and differ only in the order in which
  the nodes are stored. Their plans differ, and the second is not in ascending order of
  the identifiers.
\<close>

theorem plan_depends_on_insertion_order:
  "set (Nodes wf_ab_free) = set (Nodes wf_ba_free) \<and>
   Connections wf_ab_free = Connections wf_ba_free \<and>
   map ID (buildExecutionGraph NewWorkflowExecutor wf_ab_free) = [''a'', ''b''] \<and>
   map ID (buildExecutionGraph NewWorkflowExecutor wf_ba_free) = [''b'', ''a'']"
  by (simp add: buildExecutionGraph_def wf_ab_free_def wf_ba_free_def mk_workflow_def
        example_names insert_commute)

text \<open>
  C7, amended. Two structurally identical workflows whose nodes are stored in the same
  order (the same node sequence and the same set of connections) get the same plan.
\<close>

theorem same_node_sequence_same_plan:
  assumes "Nodes w1 = Nodes w2" and "set (Connections w1) = set (Connections w2)"
  shows "buildExecutionGraph we w1 = buildExecutionGraph we w2"
  using assms by (simp add: buildExecutionGraph_def)

theorem same_node_sequence_same_plan_witness:
  "Nodes wf_ab_free = Nodes (wf_ab_free\<lparr>WfName := ''copy''\<rparr>) \<and>
   set (Connections wf_ab_free) = set (Connections (wf_ab_free\<lparr>WfName := ''copy''\<rparr>)) \<and>
   buildExecutionGraph NewWorkflowExecutor wf_ab_free
     = buildExecutionGraph NewWorkflowExecutor (wf_ab_free\<lparr>WfName := ''copy''\<rparr>)"
  using same_node_sequence_same_plan
          [of wf_ab_free "wf_ab_free\<lparr>WfName := ''copy''\<rparr>" NewWorkflowExecutor]
  by simp

section \<open>Connections and inputs in Execute\<close>

lemma exec_node_with_nil_input:
  "exec_node \<lparr>nodeExecutors = map_option with_nil_input \<circ> nodeExecutors we\<rparr> r n
     = exec_node we r n"
  by (simp add: exec_node_def with_nil_input_def split: option.splits)

lemma exec_nodes_with_nil_input:
  "exec_nodes \<lparr>nodeExecutors = map_option with_nil_input \<circ> nodeExecutors we\<rparr> ns r
     = exec_nodes we ns r"
  by (induction ns arbitrary: r) (simp_all add: exec_node_with_nil_input)

lemma Execute_ignores_Connections:
  "Execute we t0 t1 (w\<lparr>Connections := cs\<rparr>) = Execute we t0 t1 w"
  by (simp add: Execute_eq init_result_def)

lemma dangling_wf_dangling: "dangling wf_dangling"
  by (simp add: dangling_def wf_dangling_def mk_workflow_def mk_conn_def example_names)

text \<open>
  C3, as the specification has it, fails: \<open>wf_cycle\<close> has a cycle and
  \<open>wf_dangling\<close> has a connection to a node that does not exist, and for both
  \<open>Execute\<close> runs the executor of every node and returns a \<open>completed\<close> result
  with the outputs of the nodes and no error.
\<close>

theorem invalid_workflow_is_executed:
  "structurally_invalid wf_cycle \<and>
   structurally_invalid wf_dangling \<and>
   Execute NewWorkflowExecutor 5 6 wf_cycle
     = (Some \<lparr>WorkflowID = ''wf'', Status = ''completed'', StartTime = 5, EndTime = 6,
              Results = [''a'' \<mapsto> out_a, ''b'' \<mapsto> out_b], Errors = []\<rparr>, None) \<and>
   Execute NewWorkflowExecutor 5 6 wf_dangling
     = (Some \<lparr>WorkflowID = ''wf'', Status = ''completed'', StartTime = 5, EndTime = 6,
              Results = [''a'' \<mapsto> out_a], Errors = []\<rparr>, None)"
  by (simp add: structurally_invalid_def has_cycle_wf_cycle dangling_wf_dangling)
     (simp add: Execute_eq wf_cycle_def wf_dangling_def mk_workflow_def exec_node_def
        example_names example_lookups example_outputs init_result_def finish_def)

text \<open>
  C3, amended. For a workflow whose graph is structurally invalid (a cycle or a dangling
  connection) \<open>Execute\<close> makes no structural check and reports no structural error:
  it returns what it returns for the same workflow without connections, that is, every
  node of the workflow is given to its executor, the error list holds exactly the
  entries of the nodes that fail or have no executor, and the outputs have an entry for
  every node that succeeds.
\<close>

theorem invalid_workflow_runs_as_without_connections:
  assumes "structurally_invalid w"
  shows "Execute we t0 t1 w = Execute we t0 t1 (w\<lparr>Connections := []\<rparr>) \<and>
         (\<exists>r. Execute we t0 t1 w = (Some r, None) \<and>
              Errors r = List.map_filter (node_error we) (Nodes w) \<and>
              dom (Results r) = ID ` {n \<in> set (Nodes w). node_error we n = None} \<and>
              (Status r = ''completed'') = (List.map_filter (node_error we) (Nodes w) = []))"
  by (simp add: Execute_ignores_Connections)
     (simp add: Execute_eq finish_fields Errors_exec_nodes dom_Results_exec_nodes
        init_result_def)

theorem invalid_workflow_runs_as_without_connections_witness:
  "structurally_invalid wf_dangling \<and>
   Execute NewWorkflowExecutor 5 6 wf_dangling
     = Execute NewWorkflowExecutor 5 6 (wf_dangling\<lparr>Connections := []\<rparr>) \<and>
   List.map_filter (node_error NewWorkflowExecutor) (Nodes wf_dangling) = [] \<and>
   (\<exists>r. Execute NewWorkflowExecutor 5 6 wf_dangling = (Some r, None) \<and>
        Errors r = [] \<and> dom (Results r) = {''a''} \<and> Status r = ''completed'')"
proof -
  have invalid: "structurally_invalid wf_dangling"
    by (simp add: structurally_invalid_def dangling_wf_dangling)
  have ok: "node_error NewWorkflowExecutor node_a = None"
    by (simp add: node_error_def example_names example_lookups example_outputs)
  have nodes: "Nodes wf_dangling = [node_a]"
    by (simp add: wf_dangling_def mk_workflow_def)
  have errs: "List.map_filter (node_error NewWorkflowExecutor) (Nodes wf_dangling) = []"
    by (simp add: nodes List.map_filter_simps ok)
  have outs: "ID ` {n \<in> set (Nodes wf_dangling). node_error NewWorkflowExecutor n = None} = {''a''}"
    using ok by (auto simp add: nodes example_names)
  note inst = invalid_workflow_runs_as_without_connections [OF invalid, of NewWorkflowExecutor 5 6]
  from inst have same: "Execute NewWorkflowExecutor 5 6 wf_dangling
     = Execute NewWorkflowExecutor 5 6 (wf_dangling\<lparr>Connections := []\<rparr>)"
    by (rule conjunct1)
  from inst [THEN conjunct2] obtain r
    where r: "Execute NewWorkflowExecutor 5 6 wf_dangling = (Some r, None)"
      "Errors r = List.map_filter (node_error NewWorkflowExecutor) (Nodes wf_dangling)"
      "dom (Results r) = ID ` {n \<in> set (Nodes wf_dangling). node_error NewWorkflowExecutor n = None}"
      "(Status r = ''completed'') = (List.map_filter (node_error NewWorkflowExecutor) (Nodes wf_dangling) = [])"
    by blast
  from r errs outs
  have "\<exists>r. Execute NewWorkflowExecutor 5 6 wf_dangling = (Some r, None) \<and>
        Errors r = [] \<and> dom (Results r) = {''a''} \<and> Status r = ''completed''"
    by simp
  with invalid same errs show ?thesis
    by blast
qed

text \<open>
  C6, as the specification has it, fails: in \<open>wf_echo\<close> the node e has the
  predecessor a, whose output is recorded before e runs, so the input that the
  specification resolves for e is the mapping of a to that output. The executor of e
  returns its input as its output, and the output recorded for e is \<open>nil\<close>.
\<close>

theorem predecessor_output_is_not_passed:
  "Execute we_test 5 6 wf_echo
     = (Some \<lparr>WorkflowID = ''wf'', Status = ''completed'', StartTime = 5, EndTime = 6,
              Results = [''a'' \<mapsto> out_a, ''e'' \<mapsto> VNil], Errors = []\<rparr>, None) \<and>
   spec_resolved_input (Connections wf_echo) [''a'' \<mapsto> out_a] ''e'' = VMap [(''a'', out_a)] \<and>
   EchoExecutor node_e (VMap [(''a'', out_a)]) = (VMap [(''a'', out_a)], None)"
  by (simp add: example_outputs)
     (simp add: Execute_eq wf_echo_def mk_workflow_def mk_conn_def exec_node_def
        example_names example_lookups example_outputs init_result_def finish_def
        spec_resolved_input_def List.map_filter_simps)

text \<open>
  C6, amended. For every node executed during a run the input passed to its executor is
  \<open>nil\<close>, whether or not the node has predecessors: the outputs recorded for
  predecessors are not passed on, neither as a mapping nor merged into a scalar. So a
  run is the same when every executor is replaced by the one that answers every input
  as the original answers \<open>nil\<close>, and it is the same for any other connections.
\<close>

theorem executors_only_see_nil:
  "Execute \<lparr>nodeExecutors = map_option with_nil_input \<circ> nodeExecutors we\<rparr> t0 t1 w
     = Execute we t0 t1 w \<and>
   Execute we t0 t1 (w\<lparr>Connections := cs\<rparr>) = Execute we t0 t1 w \<and>
   exec_node we r node
     = (case nodeExecutors we (Type node) of
          None \<Rightarrow> r\<lparr>Errors := Errors r @ [''no executor for node type: '' @ Type node]\<rparr>
        | Some ex \<Rightarrow>
            (case snd (ex node VNil) of
               Some err \<Rightarrow> r\<lparr>Errors := Errors r @ [''node '' @ ID node @ '' error: '' @ err]\<rparr>
             | None \<Rightarrow> r\<lparr>Results := (Results r)(ID node \<mapsto> fst (ex node VNil))\<rparr>))"
  by (simp add: Execute_ignores_Connections)
     (simp add: Execute_eq exec_nodes_with_nil_input exec_node_def
        split: option.splits prod.splits)

end
